theory Spec2Isabelle
  imports Complex_Main
begin

section \<open>Data exchanged with the planning service (lib/types.ts)\<close>

text \<open>
  The records follow the TypeScript types field by field.  Isabelle record fields are
  global constants, so where two types use the same field name the second one carries a
  prefix: \<open>sp_\<close> for SpeciesPlan, \<open>src_\<close> for the per-metric source labels,
  \<open>a_\<close> for the id, name, notes and legal note of an Area, \<open>r_\<close> for the id and
  name of a Region, \<open>d_\<close> for the defaults of the metadata, \<open>pr_\<close> for
  PlanResponse, and the species list of the metadata is \<open>meta_species\<close>.

  An optional or nullable field is an \<open>option\<close>: \<open>undefined\<close> and \<open>null\<close> are both
  \<open>None\<close>, because the components only test such fields with \<open>!\<close>, \<open>||\<close> and
  \<open>&&\<close>, which do not tell them apart.  A JavaScript number is a \<open>real\<close>; no
  property below depends on floating-point rounding.  The optional \<open>day_windows\<close> of
  a plan window is read by no component and is left out.
\<close>

record SpeciesPlan =
  sp_species :: string
  sp_label :: string
  sp_score :: real
  sp_legal :: "string option"

record Sources =
  src_wind :: "string option"
  src_wind_deg :: "string option"
  src_swell :: "string option"
  src_swell_period :: "string option"
  src_sea_temp :: "string option"
  src_tide :: "string option"

record PlanWindow =
  date :: string
  window :: string
  window_id :: string
  score :: real
  per_species :: "SpeciesPlan list"
  wind_speed :: real
  wind_deg :: real
  swell_height :: real
  swell_period :: real
  sea_temp :: real
  tide_phase :: string
  sources :: "Sources option"
  explanation :: "string option"
  factors :: "string list option"

record Area =
  a_id :: string
  a_name :: string
  lat :: real
  lon :: real
  coast_facing :: string
  a_notes :: "string option"
  a_legal :: "string option"

record Region =
  r_id :: string
  r_name :: string
  areas :: "Area list"

record Defaults =
  d_region_id :: string
  d_area_id :: string

record MetaResponse =
  regions :: "Region list"
  meta_species :: "string list"
  defaults :: "Defaults option"

record PlanRequest =
  region_id :: string
  area_id :: string
  species :: "string list"
  start_date :: string
  end_date :: string

type_synonym Preset = PlanRequest

record PlanResponse =
  pr_region :: Region
  pr_area :: Area
  pr_species :: "string list"
  generated_at :: string
  pr_results :: "PlanWindow list"
  pr_sources :: "string list"

section \<open>JavaScript truthiness of optional strings\<close>

text \<open>
  \<open>!s\<close> holds for \<open>undefined\<close>, \<open>null\<close> and the empty string; \<open>a || b\<close> is \<open>a\<close> when
  \<open>a\<close> is truthy and \<open>b\<close> otherwise.
\<close>

definition truthy :: "string option \<Rightarrow> bool" where
  "truthy s = (case s of None \<Rightarrow> False | Some v \<Rightarrow> v \<noteq> [])"

definition or_else :: "string option \<Rightarrow> string \<Rightarrow> string" where
  "or_else s d = (case s of None \<Rightarrow> d | Some v \<Rightarrow> if v = [] then d else v)"

section \<open>The results component (ResultsList)\<close>

text \<open>
  A rendered result card keeps what the row's JSX decides: the React key, the row whose
  fields the card prints, the four source chips (present only when the row has a
  \<open>sources\<close> object), whether the "Data gap: fallback used" chip is rendered, and the
  feedback status text.
\<close>

record card =
  card_key :: string
  card_row :: PlanWindow
  source_chips :: "string list option"
  gap_chip :: bool
  feedback_text :: string

definition row_key :: "PlanWindow \<Rightarrow> string" where
  "row_key row = date row @ ''-'' @ window_id row"

definition hasGap :: "PlanWindow \<Rightarrow> bool" where
  "hasGap row =
     (case sources row of
        None \<Rightarrow> True
      | Some s \<Rightarrow> \<not> truthy (src_wind s) \<or> \<not> truthy (src_swell s)
                 \<or> \<not> truthy (src_sea_temp s) \<or> \<not> truthy (src_tide s))"

definition render_row :: "(string \<rightharpoonup> string) \<Rightarrow> PlanWindow \<Rightarrow> card" where
  "render_row feedbackStatus row =
     \<lparr> card_key = row_key row,
       card_row = row,
       source_chips =
         (case sources row of
            None \<Rightarrow> None
          | Some s \<Rightarrow> Some [''Wind: '' @ or_else (src_wind s) ''open-meteo'',
                            ''Swell: '' @ or_else (src_swell s) ''open-meteo'',
                            ''Temp: '' @ or_else (src_sea_temp s) ''open-meteo'',
                            ''Tide: '' @ or_else (src_tide s) ''open-meteo'']),
       gap_chip = hasGap row,
       feedback_text = or_else (feedbackStatus (row_key row)) [] \<rparr>"

text \<open>
  The component returns a placeholder paragraph for an empty list (\<open>None\<close> here) and
  otherwise one card for each element of \<open>results.slice(0, 8)\<close>.
\<close>

definition ResultsList :: "(string \<rightharpoonup> string) \<Rightarrow> PlanWindow list \<Rightarrow> card list option" where
  "ResultsList feedbackStatus results =
     (if results = [] then None
      else Some (map (render_row feedbackStatus) (take 8 results)))"

definition rendered_rows :: "card list option \<Rightarrow> card list" where
  "rendered_rows v = (case v of None \<Rightarrow> [] | Some cs \<Rightarrow> cs)"

section \<open>Dates (Date.prototype.toISOString followed by slice(0, 10))\<close>

text \<open>
  A time value is a number of milliseconds since the epoch, an \<open>int\<close>.  The day number
  is the floor of the time value divided by the milliseconds of a day; the calendar date
  of a day number is the proleptic Gregorian one.  \<open>toISOString\<close> prints a year from 0
  to 9999 with four digits and any other year with a sign and six digits, and
  \<open>slice(0, 10)\<close> keeps the first ten characters.  \<open>Date.now()\<close> is a valid time
  value, within 8.64e15 ms of the epoch; the \<open>RangeError\<close> of \<open>toISOString\<close>
  beyond that range is not part of this model.
\<close>

definition msPerDay :: int where
  "msPerDay = 24 * 60 * 60 * 1000"

definition utc_day :: "int \<Rightarrow> int" where
  "utc_day ms = ms div msPerDay"

definition civil_from_days :: "int \<Rightarrow> int \<times> int \<times> int" where
  "civil_from_days n =
     (let z = n + 719468;
          era = z div 146097;
          doe = z - era * 146097;
          yoe = (doe - doe div 1460 + doe div 36524 - doe div 146096) div 365;
          doy = doe - (365 * yoe + yoe div 4 - yoe div 100);
          mp = (5 * doy + 2) div 153;
          d = doy - (153 * mp + 2) div 5 + 1;
          m = (if mp < 10 then mp + 3 else mp - 9);
          y = yoe + era * 400 + (if m \<le> 2 then 1 else 0)
      in (y, m, d))"

definition dig :: "int \<Rightarrow> char" where
  "dig n = ''0123456789'' ! nat (n mod 10)"

definition pad2 :: "int \<Rightarrow> string" where
  "pad2 n = [dig (n div 10), dig n]"

definition pad4 :: "int \<Rightarrow> string" where
  "pad4 n = [dig (n div 1000), dig (n div 100), dig (n div 10), dig n]"

definition pad6 :: "int \<Rightarrow> string" where
  "pad6 n = [dig (n div 100000), dig (n div 10000)] @ pad4 n"

definition year_text :: "int \<Rightarrow> string" where
  "year_text y =
     (if 0 \<le> y \<and> y \<le> 9999 then pad4 y
      else (if y < 0 then ''-'' else ''+'') @ pad6 \<bar>y\<bar>)"

definition day_text :: "int \<Rightarrow> string" where
  "day_text n =
     (case civil_from_days n of
        (y, m, d) \<Rightarrow> take 10 (year_text y @ ''-'' @ pad2 m @ ''-'' @ pad2 d))"

definition toISOString_slice10 :: "int \<Rightarrow> string" where
  "toISOString_slice10 ms = day_text (utc_day ms)"

section \<open>The API client (api.ts): requests and outcomes\<close>

text \<open>
  Every operation issues one HTTP call.  The calls issued so far are kept in a log, so
  that "no network call" is a statement about the log.  A call settles later, either
  with the response body or, on a transport error, a timeout or a non-success status,
  with the error object axios rejects with; of that object the hook reads
  \<open>response.data.error\<close> and \<open>message\<close>.
\<close>

datatype rating = Up | Down

record Feedback =
  fb_rating :: rating
  fb_date :: string
  fb_window_id :: string
  fb_window :: string
  fb_score :: real
  fb_per_species :: "SpeciesPlan list"
  fb_sources :: "Sources option"

datatype request =
    GetMeta
  | PostPlan PlanRequest
  | GetPresets string
  | PostPreset string Preset
  | PostFeedback "string option" Feedback

record AxiosError =
  response_data_error :: "string option"
  message :: "string option"

text \<open>\<open>getPresets\<close> and \<open>savePreset\<close> return \<open>data.presets || []\<close>.\<close>

definition presets_of_body :: "Preset list option \<Rightarrow> Preset list" where
  "presets_of_body b = (case b of None \<Rightarrow> [] | Some ps \<Rightarrow> ps)"

text \<open>The header of \<open>sendFeedback\<close>: present only for a truthy user id.\<close>

definition feedback_header :: "string \<Rightarrow> string option" where
  "feedback_header uid = (if uid = [] then None else Some uid)"

section \<open>The state of the page\<close>

text \<open>
  One record holds the state of the hook (usePlanner), of the page (PlannerPage), of the
  form (PlannerForm) and of the results component, together with the browser's local
  storage, the alerts shown and the log of calls.  The form's species selection is
  \<open>f_species\<close>, since \<open>species\<close> is the field of a plan request.
\<close>

record app =
  meta :: "MetaResponse option"
  loadingMeta :: bool
  results :: "PlanResponse option"
  planning :: bool
  error :: "string option"
  presets :: "Preset list"
  submitted :: bool
  userId :: string
  lastSaved :: "string option"
  regionId :: string
  areaId :: string
  f_species :: "string list"
  startDate :: string
  endDate :: string
  feedbackStatus :: "string \<rightharpoonup> string"
  localStorage :: "string \<rightharpoonup> string"
  alerts :: "string list"
  calls :: "request list"

text \<open>
  The first render: the hook starts with no metadata, so the form's region and area
  start empty; the identifier and the last-saved stamp are read from local storage; the
  dates are today and today plus three days.
\<close>

definition init :: "(string \<rightharpoonup> string) \<Rightarrow> int \<Rightarrow> app" where
  "init ls now =
     \<lparr> meta = None, loadingMeta = True, results = None, planning = False,
       error = None, presets = [],
       submitted = False, userId = or_else (ls ''fisher_user_id'') [],
       lastSaved = ls ''fisher_last_saved'',
       regionId = [], areaId = [], f_species = [],
       startDate = toISOString_slice10 now,
       endDate = toISOString_slice10 (now + 3 * 24 * 60 * 60 * 1000),
       feedbackStatus = Map.empty, localStorage = ls, alerts = [], calls = [] \<rparr>"

section \<open>The planner hook (usePlanner)\<close>

text \<open>
  An async action runs up to its \<open>await\<close> when it is invoked (\<open>_start\<close>) and runs its
  continuation when the call settles (\<open>_settle\<close>), with the outcome as an argument:
  \<open>Inl\<close> the rejection, \<open>Inr\<close> the value the API client returns.
\<close>

definition fetchMeta_start :: "app \<Rightarrow> app" where
  "fetchMeta_start st = st\<lparr>loadingMeta := True, calls := calls st @ [GetMeta]\<rparr>"

definition fetchMeta_settle :: "AxiosError + MetaResponse \<Rightarrow> app \<Rightarrow> app" where
  "fetchMeta_settle r st =
     (case r of
        Inr data \<Rightarrow> st\<lparr>meta := Some data, loadingMeta := False\<rparr>
      | Inl err \<Rightarrow>
          st\<lparr>error := Some (or_else (message err) ''Failed to load metadata''),
             loadingMeta := False\<rparr>)"

definition runPlan_start :: "PlanRequest \<Rightarrow> app \<Rightarrow> app" where
  "runPlan_start payload st =
     st\<lparr>planning := True, error := None, calls := calls st @ [PostPlan payload]\<rparr>"

definition runPlan_settle :: "AxiosError + PlanResponse \<Rightarrow> app \<Rightarrow> app" where
  "runPlan_settle r st =
     (case r of
        Inr data \<Rightarrow> st\<lparr>results := Some data, planning := False\<rparr>
      | Inl err \<Rightarrow>
          st\<lparr>error := Some (or_else (response_data_error err)
                               (or_else (message err) ''Plan failed'')),
             planning := False\<rparr>)"

definition loadPresets_start :: "string \<Rightarrow> app \<Rightarrow> app" where
  "loadPresets_start uid st =
     (if uid = [] then st else st\<lparr>calls := calls st @ [GetPresets uid]\<rparr>)"

definition loadPresets_settle :: "AxiosError + Preset list \<Rightarrow> app \<Rightarrow> app" where
  "loadPresets_settle r st =
     (case r of
        Inr data \<Rightarrow> st\<lparr>presets := data\<rparr>
      | Inl err \<Rightarrow>
          st\<lparr>error := Some (or_else (response_data_error err)
                               (or_else (message err) ''Preset fetch failed''))\<rparr>)"

definition persistPreset_start :: "string \<Rightarrow> Preset \<Rightarrow> app \<Rightarrow> app" where
  "persistPreset_start uid preset st =
     (if uid = [] then st else st\<lparr>calls := calls st @ [PostPreset uid preset]\<rparr>)"

definition persistPreset_settle :: "AxiosError + Preset list \<Rightarrow> app \<Rightarrow> app" where
  "persistPreset_settle r st =
     (case r of
        Inr data \<Rightarrow> st\<lparr>presets := data\<rparr>
      | Inl err \<Rightarrow>
          st\<lparr>error := Some (or_else (response_data_error err)
                               (or_else (message err) ''Preset save failed''))\<rparr>)"

text \<open>Mounting the page renders once and starts the metadata fetch.\<close>

definition mount :: "(string \<rightharpoonup> string) \<Rightarrow> int \<Rightarrow> app" where
  "mount ls now = fetchMeta_start (init ls now)"

section \<open>The page (PlannerPage)\<close>

text \<open>
  The effect of the page runs after a render in which the metadata, \<open>runPlan\<close> or
  \<open>submitted\<close> changed; \<open>now\<close> is the value of \<open>Date.now()\<close> at that moment.
\<close>

definition page_effect :: "int \<Rightarrow> app \<Rightarrow> app" where
  "page_effect now st =
     (case meta st of
        None \<Rightarrow> st
      | Some m \<Rightarrow>
          if submitted st then st
          else (case defaults m of
                  None \<Rightarrow> st
                | Some d \<Rightarrow>
                    (runPlan_start
                       \<lparr> region_id = d_region_id d, area_id = d_area_id d, species = [],
                         start_date = toISOString_slice10 now,
                         end_date = toISOString_slice10 (now + 2 * 24 * 60 * 60 * 1000) \<rparr>
                       st)\<lparr>submitted := True\<rparr>))"

definition handleSavePreset :: "PlanRequest \<Rightarrow> app \<Rightarrow> app" where
  "handleSavePreset payload st =
     (if userId st = []
      then st\<lparr>alerts := alerts st @ [''Add a user ID first (email or nickname).'']\<rparr>
      else persistPreset_start (userId st) payload st)"

definition handleLoadPresets :: "app \<Rightarrow> app" where
  "handleLoadPresets st =
     (if userId st = []
      then st\<lparr>alerts := alerts st @ [''Add a user ID first (email or nickname).'']\<rparr>
      else loadPresets_start (userId st) st)"

definition onSubmit :: "PlanRequest \<Rightarrow> app \<Rightarrow> app" where
  "onSubmit payload st = (runPlan_start payload st)\<lparr>submitted := True\<rparr>"

definition onApplyPreset :: "Preset \<Rightarrow> app \<Rightarrow> app" where
  "onApplyPreset preset st = (runPlan_start preset st)\<lparr>submitted := True\<rparr>"

definition onUserIdChange :: "string \<Rightarrow> app \<Rightarrow> app" where
  "onUserIdChange val st =
     st\<lparr>userId := val, localStorage := (localStorage st)(''fisher_user_id'' \<mapsto> val)\<rparr>"

section \<open>The form (PlannerForm)\<close>

definition defaults_of :: "app \<Rightarrow> Defaults option" where
  "defaults_of st = (case meta st of None \<Rightarrow> None | Some m \<Rightarrow> defaults m)"

text \<open>\<open>meta?.regions.find((r) => r.id === v)\<close>: the first region with that id.\<close>

definition find_region :: "app \<Rightarrow> string \<Rightarrow> Region option" where
  "find_region st v =
     (case meta st of None \<Rightarrow> None | Some m \<Rightarrow> find (\<lambda>r. r_id r = v) (regions m))"

text \<open>The effect "keep defaults in sync after meta load".\<close>

definition form_effect :: "app \<Rightarrow> app" where
  "form_effect st =
     (case defaults_of st of
        None \<Rightarrow> st
      | Some d \<Rightarrow>
          if regionId st = [] then st\<lparr>regionId := d_region_id d, areaId := d_area_id d\<rparr>
          else st)"

text \<open>The \<open>onChange\<close> of the region selector, \<open>v\<close> being \<open>e.target.value\<close>.\<close>

definition region_change :: "string \<Rightarrow> app \<Rightarrow> app" where
  "region_change v st =
     (case find_region st v of
        None \<Rightarrow> st\<lparr>regionId := v\<rparr>
      | Some r \<Rightarrow>
          (case areas r of
             [] \<Rightarrow> st\<lparr>regionId := v\<rparr>
           | a # rest \<Rightarrow> st\<lparr>regionId := v, areaId := a_id a\<rparr>))"

definition area_change :: "string \<Rightarrow> app \<Rightarrow> app" where
  "area_change v st = st\<lparr>areaId := v\<rparr>"

definition startDate_change :: "string \<Rightarrow> app \<Rightarrow> app" where
  "startDate_change v st = st\<lparr>startDate := v\<rparr>"

definition endDate_change :: "string \<Rightarrow> app \<Rightarrow> app" where
  "endDate_change v st = st\<lparr>endDate := v\<rparr>"

definition handleSpeciesToggle :: "string \<Rightarrow> app \<Rightarrow> app" where
  "handleSpeciesToggle sp st =
     st\<lparr>f_species :=
          (if sp \<in> set (f_species st) then filter (\<lambda>s. s \<noteq> sp) (f_species st)
           else f_species st @ [sp])\<rparr>"

text \<open>The request object both the submit and the save button build from the form.\<close>

definition form_payload :: "app \<Rightarrow> PlanRequest" where
  "form_payload st =
     \<lparr> region_id = regionId st, area_id = areaId st, species = f_species st,
       start_date = startDate st, end_date = endDate st \<rparr>"

text \<open>The submit button is disabled while planning or while region or area is unset.\<close>

definition submit_click :: "app \<Rightarrow> app" where
  "submit_click st =
     (if planning st \<or> regionId st = [] \<or> areaId st = [] then st
      else onSubmit (form_payload st) st)"

definition reset_click :: "app \<Rightarrow> app" where
  "reset_click st =
     st\<lparr>f_species := [],
        regionId := or_else (map_option d_region_id (defaults_of st)) [],
        areaId := or_else (map_option d_area_id (defaults_of st)) []\<rparr>"

text \<open>
  The save button: \<open>onSavePreset\<close> with the form's request, then the stamp \<open>ts\<close>
  (\<open>new Date().toISOString()\<close>) goes to local storage and to \<open>lastSaved\<close>.
\<close>

definition save_preset_click :: "string \<Rightarrow> app \<Rightarrow> app" where
  "save_preset_click ts st =
     (let st1 = handleSavePreset (form_payload st) st
      in st1\<lparr>localStorage := (localStorage st1)(''fisher_last_saved'' \<mapsto> ts),
             lastSaved := Some ts\<rparr>)"

text \<open>The chip of a saved preset \<open>p\<close>.\<close>

definition apply_preset_click :: "string \<Rightarrow> Preset \<Rightarrow> app \<Rightarrow> app" where
  "apply_preset_click ts p st =
     (let st1 = st\<lparr>regionId := region_id p, areaId := area_id p, f_species := species p,
                    startDate := start_date p, endDate := end_date p\<rparr>
      in (onApplyPreset p st1)\<lparr>lastSaved := Some ts\<rparr>)"

section \<open>Feedback on a row (handleFeedback of ResultsList)\<close>

definition feedback_of :: "PlanWindow \<Rightarrow> rating \<Rightarrow> Feedback" where
  "feedback_of row r =
     \<lparr> fb_rating = r, fb_date = date row, fb_window_id = window_id row,
       fb_window = window row, fb_score = score row,
       fb_per_species = per_species row, fb_sources = sources row \<rparr>"

definition handleFeedback_start :: "PlanWindow \<Rightarrow> rating \<Rightarrow> app \<Rightarrow> app" where
  "handleFeedback_start row r st =
     st\<lparr>feedbackStatus := (feedbackStatus st)(row_key row \<mapsto> ''Sending...''),
        calls := calls st @ [PostFeedback (feedback_header (userId st)) (feedback_of row r)]\<rparr>"

definition handleFeedback_settle :: "PlanWindow \<Rightarrow> AxiosError + unit \<Rightarrow> app \<Rightarrow> app" where
  "handleFeedback_settle row r st =
     (case r of
        Inr u \<Rightarrow> st\<lparr>feedbackStatus := (feedbackStatus st)(row_key row \<mapsto> ''Thanks!'')\<rparr>
      | Inl err \<Rightarrow> st\<lparr>feedbackStatus := (feedbackStatus st)(row_key row \<mapsto> ''Error'')\<rparr>)"

text \<open>What the page hands to the results component: \<open>results?.results || []\<close>.\<close>

definition shown_results :: "app \<Rightarrow> PlanWindow list" where
  "shown_results st = (case results st of None \<Rightarrow> [] | Some pr \<Rightarrow> pr_results pr)"

definition results_view :: "app \<Rightarrow> card list option" where
  "results_view st = ResultsList (feedbackStatus st) (shown_results st)"

section \<open>Events of the page\<close>

text \<open>
  Everything that can happen to a mounted page: a call settles, an effect runs after a
  render, or the user acts on a control.  \<open>step\<close> dispatches an event to its handler
  and \<open>run\<close> executes a sequence of events.
\<close>

datatype event =
    MetaSettled "AxiosError + MetaResponse"
  | PageEffect int
  | FormEffect
  | PlanSettled "AxiosError + PlanResponse"
  | PresetsLoaded "AxiosError + Preset list"
  | PresetSaved "AxiosError + Preset list"
  | FeedbackSettled PlanWindow "AxiosError + unit"
  | RegionChange string
  | AreaChange string
  | StartDateChange string
  | EndDateChange string
  | SpeciesToggle string
  | UserIdChange string
  | SubmitClick
  | ResetClick
  | LoadPresetsClick
  | SavePresetClick string
  | ApplyPresetClick string Preset
  | FeedbackClick PlanWindow rating

fun step :: "event \<Rightarrow> app \<Rightarrow> app" where
  "step (MetaSettled r) st = fetchMeta_settle r st"
| "step (PageEffect now) st = page_effect now st"
| "step FormEffect st = form_effect st"
| "step (PlanSettled r) st = runPlan_settle r st"
| "step (PresetsLoaded r) st = loadPresets_settle r st"
| "step (PresetSaved r) st = persistPreset_settle r st"
| "step (FeedbackSettled row r) st = handleFeedback_settle row r st"
| "step (RegionChange v) st = region_change v st"
| "step (AreaChange v) st = area_change v st"
| "step (StartDateChange v) st = startDate_change v st"
| "step (EndDateChange v) st = endDate_change v st"
| "step (SpeciesToggle sp) st = handleSpeciesToggle sp st"
| "step (UserIdChange v) st = onUserIdChange v st"
| "step SubmitClick st = submit_click st"
| "step ResetClick st = reset_click st"
| "step LoadPresetsClick st = handleLoadPresets st"
| "step (SavePresetClick ts) st = save_preset_click ts st"
| "step (ApplyPresetClick ts p) st = apply_preset_click ts p st"
| "step (FeedbackClick row r) st = handleFeedback_start row r st"

fun run :: "event list \<Rightarrow> app \<Rightarrow> app" where
  "run [] st = st"
| "run (ev # evs) st = run evs (step ev st)"

text \<open>The user submissions: the submit button and the chip of a preset.\<close>

definition is_submission :: "event \<Rightarrow> bool" where
  "is_submission ev =
     (case ev of SubmitClick \<Rightarrow> True | ApplyPresetClick ts p \<Rightarrow> True | _ \<Rightarrow> False)"

definition is_save_click :: "event \<Rightarrow> bool" where
  "is_save_click ev = (case ev of SavePresetClick ts \<Rightarrow> True | _ \<Rightarrow> False)"

section \<open>The specification's words\<close>

text \<open>
  The four source labels the data-gap indicator is about, in the order wind, swell,
  sea temperature, tide.  A row without a \<open>sources\<close> object has none of the four.
\<close>

definition required_labels :: "PlanWindow \<Rightarrow> string option list" where
  "required_labels row =
     (case sources row of
        None \<Rightarrow> [None, None, None, None]
      | Some s \<Rightarrow> [src_wind s, src_swell s, src_sea_temp s, src_tide s])"

text \<open>A label is missing when the field is absent, null or the empty string.\<close>

definition label_missing :: "string option \<Rightarrow> bool" where
  "label_missing l = (l = None \<or> l = Some [])"

definition is_plan_request :: "request \<Rightarrow> bool" where
  "is_plan_request q = (case q of PostPlan p \<Rightarrow> True | _ \<Rightarrow> False)"

section \<open>Sample data\<close>

definition ex_sources :: Sources where
  "ex_sources =
     \<lparr> src_wind = Some ''open-meteo'', src_wind_deg = None,
       src_swell = Some ''stormglass'', src_swell_period = None,
       src_sea_temp = Some ''open-meteo'', src_tide = Some ''worldtides'' \<rparr>"

definition ex_row :: "string \<Rightarrow> Sources option \<Rightarrow> PlanWindow" where
  "ex_row w s =
     \<lparr> date = ''2026-11-03'', window = ''Dawn'', window_id = w, score = 81,
       per_species = [], wind_speed = 12, wind_deg = 140, swell_height = 2,
       swell_period = 11, sea_temp = 16, tide_phase = ''rising'',
       sources = s, explanation = None, factors = None \<rparr>"

definition ex_nine :: "PlanWindow list" where
  "ex_nine =
     map (\<lambda>w. ex_row w (Some ex_sources))
       [''w1'', ''w2'', ''w3'', ''w4'', ''w5'', ''w6'', ''w7'', ''w8'', ''w9'']"

definition ex_area :: Area where
  "ex_area =
     \<lparr> a_id = ''false_bay'', a_name = ''False Bay'', lat = -34, lon = 18,
       coast_facing = ''S'', a_notes = None, a_legal = None \<rparr>"

definition ex_meta :: MetaResponse where
  "ex_meta =
     \<lparr> regions =
         [\<lparr> r_id = ''western_cape'', r_name = ''Western Cape'', areas = [ex_area] \<rparr>,
          \<lparr> r_id = ''offshore'', r_name = ''Offshore'', areas = [] \<rparr>],
       meta_species = [''kob'', ''galjoen''],
       defaults = Some \<lparr> d_region_id = ''western_cape'', d_area_id = ''false_bay'' \<rparr> \<rparr>"

text \<open>Metadata of a service that sends no defaults.\<close>

definition ex_meta_plain :: MetaResponse where
  "ex_meta_plain = ex_meta\<lparr>defaults := None\<rparr>"

definition ex_preset :: Preset where
  "ex_preset =
     \<lparr> region_id = ''western_cape'', area_id = ''false_bay'', species = [''kob''],
       start_date = ''2026-11-10'', end_date = ''2026-11-12'' \<rparr>"

definition ex_error :: AxiosError where
  "ex_error = \<lparr> response_data_error = None, message = Some ''Network Error'' \<rparr>"

definition ex_plan :: PlanResponse where
  "ex_plan =
     \<lparr> pr_region = \<lparr> r_id = ''western_cape'', r_name = ''Western Cape'', areas = [ex_area] \<rparr>,
       pr_area = ex_area, pr_species = [], generated_at = ''2026-11-03T06:00:00Z'',
       pr_results = [ex_row ''w1'' (Some ex_sources), ex_row ''w2'' None],
       pr_sources = [''open-meteo''] \<rparr>"

text \<open>
  A form in use: metadata loaded, the first region and its area selected, an earlier
  plan on display, no identifier entered.
\<close>

definition ex_state :: app where
  "ex_state =
     \<lparr> meta = Some ex_meta, loadingMeta = False, results = Some ex_plan, planning = False,
       error = None, presets = [ex_preset],
       submitted = True, userId = [],
       lastSaved = None,
       regionId = ''western_cape'', areaId = ''false_bay'', f_species = [''kob''],
       startDate = ''2026-11-03'', endDate = ''2026-11-06'',
       feedbackStatus = Map.empty, localStorage = Map.empty, alerts = [],
       calls = [GetMeta] \<rparr>"

section \<open>The results component: properties\<close>

text \<open>
  Claim C7.  For every result list the results component renders exactly
  \<open>min (length, 8)\<close> rows, and they are the first eight entries of the list in the
  order supplied: the cards are the images of \<open>take 8\<close> of the list, and the rows they
  print are that prefix itself.  The placeholder shown for an empty list has no row.
\<close>

theorem ResultsList_first_eight:
  "length (rendered_rows (ResultsList fs rs)) = min (length rs) 8
   \<and> rendered_rows (ResultsList fs rs) = map (render_row fs) (take 8 rs)
   \<and> map card_row (rendered_rows (ResultsList fs rs)) = take 8 rs"
proof -
  have rows: "rendered_rows (ResultsList fs rs) = map (render_row fs) (take 8 rs)"
    by (cases rs) (simp_all add: ResultsList_def rendered_rows_def)
  have src: "map card_row (map (render_row fs) xs) = xs" for xs
    by (induction xs) (simp_all add: render_row_def)
  from rows src show ?thesis by simp
qed

theorem ResultsList_first_eight_witness:
  "length (rendered_rows (ResultsList Map.empty ex_nine)) = 8
   \<and> map (window_id \<circ> card_row) (rendered_rows (ResultsList Map.empty ex_nine))
       = [''w1'', ''w2'', ''w3'', ''w4'', ''w5'', ''w6'', ''w7'', ''w8'']"
proof -
  note t = ResultsList_first_eight [of Map.empty ex_nine]
  have len: "length (rendered_rows (ResultsList Map.empty ex_nine)) = min (length ex_nine) 8"
    using t by blast
  have src: "map card_row (rendered_rows (ResultsList Map.empty ex_nine)) = take 8 ex_nine"
    using t by blast
  have "map (window_id \<circ> card_row) (rendered_rows (ResultsList Map.empty ex_nine))
        = map window_id (map card_row (rendered_rows (ResultsList Map.empty ex_nine)))"
    by simp
  also have "\<dots> = map window_id (take 8 ex_nine)"
    by (simp only: src)
  also have "\<dots> = [''w1'', ''w2'', ''w3'', ''w4'', ''w5'', ''w6'', ''w7'', ''w8'']"
    by (simp add: ex_nine_def ex_row_def)
  finally show ?thesis using len by (simp add: ex_nine_def)
qed

lemma hasGap_iff: "hasGap row = (\<exists>l\<in>set (required_labels row). label_missing l)"
  by (cases "sources row")
     (auto simp: hasGap_def required_labels_def label_missing_def truthy_def
           split: option.splits)

text \<open>
  Claim C2.  Every rendered row shows the data-gap chip if and only if at least one of
  the four labels wind, swell, sea temperature, tide is missing, where the component
  tests a label with \<open>!\<close>: absent, null and the empty string count as missing.  In
  particular an absent label always shows the chip, and four non-empty labels never
  do.
\<close>

theorem data_gap_chip_iff_label_missing:
  "(\<forall>c\<in>set (rendered_rows (ResultsList fs rs)).
       gap_chip c = (\<exists>l\<in>set (required_labels (card_row c)). label_missing l))
   \<and> gap_chip (render_row fs row) = (\<exists>l\<in>set (required_labels row). label_missing l)
   \<and> (None \<in> set (required_labels row) \<longrightarrow> gap_chip (render_row fs row))
   \<and> ((\<forall>l\<in>set (required_labels row). \<exists>v. l = Some v \<and> v \<noteq> [])
        \<longrightarrow> \<not> gap_chip (render_row fs row))"
proof -
  have one: "gap_chip (render_row fs r) = (\<exists>l\<in>set (required_labels r). label_missing l)" for r
    by (simp add: render_row_def hasGap_iff)
  have rows: "rendered_rows (ResultsList fs rs) = map (render_row fs) (take 8 rs)"
    by (cases rs) (simp_all add: ResultsList_def rendered_rows_def)
  have src: "card_row (render_row fs r) = r" for r
    by (simp add: render_row_def)
  have all: "\<forall>c\<in>set (rendered_rows (ResultsList fs rs)).
       gap_chip c = (\<exists>l\<in>set (required_labels (card_row c)). label_missing l)"
    unfolding rows using one src by auto
  have absent: "None \<in> set (required_labels row) \<longrightarrow> gap_chip (render_row fs row)"
    unfolding one by (auto simp: label_missing_def)
  have present: "(\<forall>l\<in>set (required_labels row). \<exists>v. l = Some v \<and> v \<noteq> [])
        \<longrightarrow> \<not> gap_chip (render_row fs row)"
    unfolding one by (auto simp: label_missing_def)
  from all one absent present show ?thesis by blast
qed

theorem data_gap_chip_iff_label_missing_witness:
  "required_labels (ex_row ''w1'' (Some ex_sources))
     = [Some ''open-meteo'', Some ''stormglass'', Some ''open-meteo'', Some ''worldtides'']
   \<and> \<not> gap_chip (render_row Map.empty (ex_row ''w1'' (Some ex_sources)))
   \<and> None \<in> set (required_labels (ex_row ''w2'' None))
   \<and> gap_chip (render_row Map.empty (ex_row ''w2'' None))"
proof -
  have labels: "required_labels (ex_row ''w1'' (Some ex_sources))
     = [Some ''open-meteo'', Some ''stormglass'', Some ''open-meteo'', Some ''worldtides'']"
    by (simp add: required_labels_def ex_row_def ex_sources_def)
  have full: "\<forall>l\<in>set (required_labels (ex_row ''w1'' (Some ex_sources))). \<exists>v. l = Some v \<and> v \<noteq> []"
    by (simp add: labels)
  have none: "None \<in> set (required_labels (ex_row ''w2'' None))"
    by (simp add: required_labels_def ex_row_def)
  have shown: "gap_chip (render_row Map.empty (ex_row ''w2'' None))"
    using data_gap_chip_iff_label_missing [of Map.empty "[]" "ex_row ''w2'' None"] none
    by blast
  have hidden: "\<not> gap_chip (render_row Map.empty (ex_row ''w1'' (Some ex_sources)))"
    using data_gap_chip_iff_label_missing [of Map.empty "[]" "ex_row ''w1'' (Some ex_sources)"] full
    by blast
  from labels hidden none shown show ?thesis by blast
qed

section \<open>The hook, the page and the form: properties\<close>

lemmas handler_defs =
  fetchMeta_settle_def page_effect_def form_effect_def runPlan_settle_def
  loadPresets_settle_def persistPreset_settle_def handleFeedback_settle_def
  region_change_def area_change_def startDate_change_def endDate_change_def
  handleSpeciesToggle_def onUserIdChange_def submit_click_def reset_click_def
  handleLoadPresets_def save_preset_click_def apply_preset_click_def
  handleFeedback_start_def runPlan_start_def loadPresets_start_def
  persistPreset_start_def handleSavePreset_def onSubmit_def onApplyPreset_def

lemma step_last_saved_frame:
  "\<not> is_save_click ev \<Longrightarrow>
     localStorage (step ev st) ''fisher_last_saved'' = localStorage st ''fisher_last_saved''"
  by (cases ev)
     (simp_all add: handler_defs is_save_click_def Let_def
        split: sum.splits option.splits list.splits)

lemma step_submitted:
  "submitted st \<Longrightarrow> submitted (step ev st)"
  by (cases ev)
     (simp_all add: handler_defs Let_def split: sum.splits option.splits list.splits)

lemma step_plan_requests:
  "submitted st \<Longrightarrow> \<not> is_submission ev \<Longrightarrow>
     filter is_plan_request (calls (step ev st)) = filter is_plan_request (calls st)"
  by (cases ev)
     (simp_all add: handler_defs is_submission_def is_plan_request_def Let_def
        split: sum.splits option.splits list.splits)

lemma run_plan_requests:
  "submitted st \<Longrightarrow> \<forall>ev\<in>set evs. \<not> is_submission ev \<Longrightarrow>
     filter is_plan_request (calls (run evs st)) = filter is_plan_request (calls st)"
proof (induction evs arbitrary: st)
  case Nil
  then show ?case by simp
next
  case (Cons ev evs)
  have "filter is_plan_request (calls (run evs (step ev st)))
        = filter is_plan_request (calls (step ev st))"
    using Cons.prems by (intro Cons.IH step_submitted) simp_all
  then show ?case
    using Cons.prems by (simp add: step_plan_requests)
qed

lemma or_else_nonempty: "d \<noteq> [] \<Longrightarrow> or_else s d \<noteq> []"
  by (cases s) (simp_all add: or_else_def)

text \<open>
  Claim C4.  When the call of a plan invocation fails, neither the start of the
  invocation nor its failure continuation touches the results state, and the shared
  error slot ends up holding a non-empty message: the server's error field, else the
  error's message, else "Plan failed".
\<close>

theorem runPlan_failure_keeps_results:
  "results (runPlan_start payload st) = results st
   \<and> results (runPlan_settle (Inl err) st) = results st
   \<and> results (runPlan_settle (Inl err) (runPlan_start payload st)) = results st
   \<and> (\<exists>msg. error (runPlan_settle (Inl err) st) = Some msg \<and> msg \<noteq> [])
   \<and> (\<exists>msg. error (runPlan_settle (Inl err) (runPlan_start payload st)) = Some msg
          \<and> msg \<noteq> [])"
proof -
  have msg: "or_else (response_data_error err) (or_else (message err) ''Plan failed'') \<noteq> []"
    by (intro or_else_nonempty) simp
  have start: "results (runPlan_start payload s) = results s" for s
    by (simp add: runPlan_start_def)
  have settle: "results (runPlan_settle (Inl err) s) = results s" for s
    by (simp add: runPlan_settle_def)
  have err: "\<exists>m. error (runPlan_settle (Inl err) s) = Some m \<and> m \<noteq> []" for s
    using msg by (simp add: runPlan_settle_def)
  show ?thesis
    using start [of st] settle [of st] settle [of "runPlan_start payload st"]
      err [of st] err [of "runPlan_start payload st"]
    by simp
qed

theorem runPlan_failure_keeps_results_witness:
  "results (runPlan_settle (Inl ex_error) (runPlan_start ex_preset ex_state)) = Some ex_plan
   \<and> error (runPlan_settle (Inl ex_error) (runPlan_start ex_preset ex_state))
       = Some ''Network Error''"
proof -
  have "results (runPlan_settle (Inl ex_error) (runPlan_start ex_preset ex_state))
        = results ex_state"
    using runPlan_failure_keeps_results [of ex_preset ex_state ex_error] by blast
  moreover have "error (runPlan_settle (Inl ex_error) (runPlan_start ex_preset ex_state))
       = Some ''Network Error''"
    by (simp add: runPlan_settle_def runPlan_start_def ex_error_def or_else_def)
  ultimately show ?thesis by (simp add: ex_state_def)
qed

text \<open>
  Claim C5.  With an empty caller identifier the save-preset action, both the page's
  handler and the whole click on the form's button, issues no call, leaves the preset
  list as it is and raises the alert that asks for a user id.
\<close>

theorem save_without_identifier_prompts:
  assumes "userId st = []"
  shows "calls (handleSavePreset payload st) = calls st
   \<and> presets (handleSavePreset payload st) = presets st
   \<and> alerts (handleSavePreset payload st)
       = alerts st @ [''Add a user ID first (email or nickname).'']
   \<and> calls (save_preset_click ts st) = calls st
   \<and> presets (save_preset_click ts st) = presets st
   \<and> alerts (save_preset_click ts st)
       = alerts st @ [''Add a user ID first (email or nickname).'']"
  using assms by (simp add: handleSavePreset_def save_preset_click_def Let_def)

theorem save_without_identifier_prompts_witness:
  "userId ex_state = []
   \<and> calls (save_preset_click ''2026-11-03T06:10:00.000Z'' ex_state) = [GetMeta]
   \<and> presets (save_preset_click ''2026-11-03T06:10:00.000Z'' ex_state) = [ex_preset]
   \<and> alerts (save_preset_click ''2026-11-03T06:10:00.000Z'' ex_state)
       = [''Add a user ID first (email or nickname).'']"
proof -
  have u: "userId ex_state = []"
    by (simp add: ex_state_def)
  from save_without_identifier_prompts [OF u, of "form_payload ex_state" "''2026-11-03T06:10:00.000Z''"]
  show ?thesis using u by (simp add: ex_state_def)
qed

text \<open>
  Claim C8, as stated, fails.  Two different rows of one list with the same date and
  window id have the same key and so share one status text: when the feedback on the
  first fails, the second shows "Error" too, while the row with another window id stays
  blank.
\<close>

theorem feedback_failure_reaches_row_with_same_key:
  "ex_row ''w1'' None \<noteq> ex_row ''w1'' (Some ex_sources)
   \<and> row_key (ex_row ''w1'' None) = row_key (ex_row ''w1'' (Some ex_sources))
   \<and> map feedback_text
        (rendered_rows (ResultsList (feedbackStatus ex_state)
           [ex_row ''w1'' (Some ex_sources), ex_row ''w1'' None, ex_row ''w2'' None]))
       = [[], [], []]
   \<and> map feedback_text
        (rendered_rows (ResultsList
           (feedbackStatus (handleFeedback_settle (ex_row ''w1'' (Some ex_sources)) (Inl ex_error)
              (handleFeedback_start (ex_row ''w1'' (Some ex_sources)) Up ex_state)))
           [ex_row ''w1'' (Some ex_sources), ex_row ''w1'' None, ex_row ''w2'' None]))
       = [''Error'', ''Error'', []]"
  by (simp add: ResultsList_def rendered_rows_def render_row_def row_key_def ex_row_def
        handleFeedback_settle_def handleFeedback_start_def ex_state_def or_else_def)

text \<open>
  Claim C8, amended.  A feedback submission that fails changes only the status text
  kept under its row's key, date and window id, first to "Sending..." and then to
  "Error": the shared error slot and the results are untouched, and every row whose key
  differs from that of the failing row is rendered exactly as before.
\<close>

theorem feedback_failure_stays_in_row:
  "error (handleFeedback_settle row (Inl err) st) = error st
   \<and> results (handleFeedback_settle row (Inl err) st) = results st
   \<and> shown_results (handleFeedback_settle row (Inl err) st) = shown_results st
   \<and> feedbackStatus (handleFeedback_settle row (Inl err) st) (row_key row) = Some ''Error''
   \<and> (\<forall>k. k \<noteq> row_key row \<longrightarrow>
         feedbackStatus (handleFeedback_settle row (Inl err) st) k = feedbackStatus st k)
   \<and> error (handleFeedback_start row r st) = error st
   \<and> results (handleFeedback_start row r st) = results st
   \<and> (\<forall>k. k \<noteq> row_key row \<longrightarrow>
         feedbackStatus (handleFeedback_start row r st) k = feedbackStatus st k)
   \<and> (\<forall>other. row_key other \<noteq> row_key row \<longrightarrow>
         render_row (feedbackStatus (handleFeedback_settle row (Inl err)
                                       (handleFeedback_start row r st))) other
         = render_row (feedbackStatus st) other)"
  by (simp add: handleFeedback_settle_def handleFeedback_start_def shown_results_def
        render_row_def)

theorem feedback_failure_stays_in_row_witness:
  "row_key (ex_row ''w2'' None) \<noteq> row_key (ex_row ''w1'' (Some ex_sources))
   \<and> feedback_text (render_row (feedbackStatus (handleFeedback_settle (ex_row ''w1'' (Some ex_sources)) (Inl ex_error)
        (handleFeedback_start (ex_row ''w1'' (Some ex_sources)) Up ex_state))) (ex_row ''w2'' None)) = []
   \<and> feedback_text (render_row (feedbackStatus (handleFeedback_settle (ex_row ''w1'' (Some ex_sources)) (Inl ex_error)
        (handleFeedback_start (ex_row ''w1'' (Some ex_sources)) Up ex_state))) (ex_row ''w1'' (Some ex_sources))) = ''Error''
   \<and> error (handleFeedback_settle (ex_row ''w1'' (Some ex_sources)) (Inl ex_error)
        (handleFeedback_start (ex_row ''w1'' (Some ex_sources)) Up ex_state)) = None"
proof -
  let ?r1 = "ex_row ''w1'' (Some ex_sources)"
  let ?r2 = "ex_row ''w2'' None"
  let ?st = "handleFeedback_settle ?r1 (Inl ex_error) (handleFeedback_start ?r1 Up ex_state)"
  note t = feedback_failure_stays_in_row [of ?r1 ex_error "handleFeedback_start ?r1 Up ex_state" Up]
  note t0 = feedback_failure_stays_in_row [of ?r1 ex_error ex_state Up]
  have k: "row_key ?r2 \<noteq> row_key ?r1"
    by (simp add: row_key_def ex_row_def)
  have other: "render_row (feedbackStatus ?st) ?r2 = render_row (feedbackStatus ex_state) ?r2"
    using t0 k by blast
  have "feedback_text (render_row (feedbackStatus ex_state) ?r2) = []"
    by (simp add: render_row_def ex_state_def or_else_def)
  with other have a: "feedback_text (render_row (feedbackStatus ?st) ?r2) = []"
    by simp
  have "feedbackStatus ?st (row_key ?r1) = Some ''Error''"
    using t by blast
  then have b: "feedback_text (render_row (feedbackStatus ?st) ?r1) = ''Error''"
    by (simp add: render_row_def or_else_def)
  have "error ?st = error (handleFeedback_start ?r1 Up ex_state)"
    using t by blast
  also have "\<dots> = error ex_state"
    using t0 by blast
  finally have c: "error ?st = None"
    by (simp add: ex_state_def)
  from k a b c show ?thesis by blast
qed

text \<open>
  Claim C9.  From every form state the reset button puts region and area back to the
  metadata defaults, or to empty when there are none, empties the species selection and
  leaves both dates as they are; the defaults effect that follows changes nothing
  more.
\<close>

theorem reset_keeps_dates:
  "regionId (reset_click st) = (case defaults_of st of None \<Rightarrow> [] | Some d \<Rightarrow> d_region_id d)
   \<and> areaId (reset_click st) = (case defaults_of st of None \<Rightarrow> [] | Some d \<Rightarrow> d_area_id d)
   \<and> f_species (reset_click st) = []
   \<and> startDate (reset_click st) = startDate st
   \<and> endDate (reset_click st) = endDate st
   \<and> form_effect (reset_click st) = reset_click st"
  by (cases "defaults_of st")
     (simp_all add: reset_click_def or_else_def form_effect_def defaults_of_def)

theorem reset_keeps_dates_witness:
  "regionId (reset_click (region_change ''offshore'' ex_state)) = ''western_cape''
   \<and> areaId (reset_click (region_change ''offshore'' ex_state)) = ''false_bay''
   \<and> f_species (reset_click (region_change ''offshore'' ex_state)) = []
   \<and> startDate (reset_click (region_change ''offshore'' ex_state)) = ''2026-11-03''
   \<and> endDate (reset_click (region_change ''offshore'' ex_state)) = ''2026-11-06''"
proof -
  have d: "defaults_of (region_change ''offshore'' ex_state)
           = Some \<lparr> d_region_id = ''western_cape'', d_area_id = ''false_bay'' \<rparr>"
    by (simp add: defaults_of_def region_change_def find_region_def ex_state_def ex_meta_def)
  have s: "startDate (region_change ''offshore'' ex_state) = ''2026-11-03''"
          "endDate (region_change ''offshore'' ex_state) = ''2026-11-06''"
    by (simp_all add: region_change_def find_region_def ex_state_def ex_meta_def)
  from reset_keeps_dates [of "region_change ''offshore'' ex_state"] d s
  show ?thesis by simp
qed

text \<open>
  Claim C1, as stated, fails.  With the area False Bay selected, choosing the region
  Offshore, whose area list is empty, leaves the area selection at False Bay: it is not
  reset to empty.
\<close>

theorem region_without_areas_keeps_area:
  "find_region ex_state ''offshore''
     = Some \<lparr> r_id = ''offshore'', r_name = ''Offshore'', areas = [] \<rparr>
   \<and> areaId ex_state = ''false_bay''
   \<and> regionId (region_change ''offshore'' ex_state) = ''offshore''
   \<and> areaId (region_change ''offshore'' ex_state) = ''false_bay''
   \<and> areaId (region_change ''offshore'' ex_state) \<noteq> []"
  by (simp add: region_change_def find_region_def ex_state_def ex_meta_def)

text \<open>
  Claim C1, amended.  Every region selection change stores the chosen region; if that
  region's area list is non-empty the area selection becomes its first area; if the
  region has no areas the area selection is left as it was.  After the choice of a
  region, whose id is not the empty value of the placeholder option, the defaults effect
  changes nothing, so this is also what the form shows.
\<close>

theorem region_change_first_area_or_unchanged:
  "regionId (region_change v st) = v
   \<and> (\<forall>r a rest. find_region st v = Some r \<and> areas r = a # rest
         \<longrightarrow> areaId (region_change v st) = a_id a)
   \<and> (\<forall>r. find_region st v = Some r \<and> areas r = []
         \<longrightarrow> areaId (region_change v st) = areaId st)
   \<and> (v \<noteq> [] \<longrightarrow> form_effect (region_change v st) = region_change v st)"
proof -
  have reg: "regionId (region_change v st) = v"
    by (simp add: region_change_def split: option.splits list.splits)
  have first: "\<forall>r a rest. find_region st v = Some r \<and> areas r = a # rest
         \<longrightarrow> areaId (region_change v st) = a_id a"
    by (simp add: region_change_def)
  have kept: "\<forall>r. find_region st v = Some r \<and> areas r = []
         \<longrightarrow> areaId (region_change v st) = areaId st"
    by (simp add: region_change_def)
  have eff: "form_effect (region_change v st) = region_change v st" if "v \<noteq> []"
    using that reg by (cases "defaults_of (region_change v st)") (simp_all add: form_effect_def)
  from reg first kept eff show ?thesis by blast
qed

theorem region_change_first_area_or_unchanged_witness:
  "find_region (area_change [] ex_state) ''western_cape''
     = Some \<lparr> r_id = ''western_cape'', r_name = ''Western Cape'', areas = [ex_area] \<rparr>
   \<and> areaId (area_change [] ex_state) = []
   \<and> areaId (form_effect (region_change ''western_cape'' (area_change [] ex_state)))
       = ''false_bay''
   \<and> find_region ex_state ''offshore''
       = Some \<lparr> r_id = ''offshore'', r_name = ''Offshore'', areas = [] \<rparr>
   \<and> regionId (form_effect (region_change ''offshore'' ex_state)) = ''offshore''
   \<and> areaId (form_effect (region_change ''offshore'' ex_state)) = ''false_bay''"
proof -
  let ?s0 = "area_change [] ex_state"
  let ?wc = "\<lparr> r_id = ''western_cape'', r_name = ''Western Cape'', areas = [ex_area] \<rparr>"
  let ?off = "\<lparr> r_id = ''offshore'', r_name = ''Offshore'', areas = [] \<rparr>"
  note t1 = region_change_first_area_or_unchanged [of "''western_cape''" ?s0]
  note t2 = region_change_first_area_or_unchanged [of "''offshore''" ex_state]
  have f1: "find_region ?s0 ''western_cape'' = Some ?wc"
    by (simp add: find_region_def area_change_def ex_state_def ex_meta_def)
  have e1: "areaId ?s0 = []"
    by (simp add: area_change_def)
  have f2: "find_region ex_state ''offshore'' = Some ?off"
    by (simp add: find_region_def ex_state_def ex_meta_def)
  have a0: "areaId ex_state = ''false_bay''"
    by (simp add: ex_state_def)
  have n1: "''western_cape'' \<noteq> []" and n2: "''offshore'' \<noteq> []"
    by simp_all
  have eff1: "form_effect (region_change ''western_cape'' ?s0) = region_change ''western_cape'' ?s0"
    using t1 n1 by blast
  have eff2: "form_effect (region_change ''offshore'' ex_state) = region_change ''offshore'' ex_state"
    using t2 n2 by blast
  have "areas ?wc = ex_area # []"
    by simp
  with f1 t1 have "areaId (region_change ''western_cape'' ?s0) = a_id ex_area"
    by blast
  then have r1: "areaId (form_effect (region_change ''western_cape'' ?s0)) = ''false_bay''"
    by (simp add: eff1 ex_area_def)
  have "areas ?off = []"
    by simp
  with f2 t2 have "areaId (region_change ''offshore'' ex_state) = areaId ex_state"
    by blast
  with a0 have r2: "areaId (form_effect (region_change ''offshore'' ex_state)) = ''false_bay''"
    by (simp add: eff2)
  have "regionId (region_change ''offshore'' ex_state) = ''offshore''"
    using t2 by blast
  then have r3: "regionId (form_effect (region_change ''offshore'' ex_state)) = ''offshore''"
    by (simp add: eff2)
  from f1 e1 r1 f2 r3 r2 show ?thesis by blast
qed

text \<open>
  Claim C3, as stated, fails.  With no caller identifier the click on the save button
  issues no call and still writes the stamp to local storage; with an identifier the
  stamp is written at the click, and the failure of the save call leaves it there while
  the preset list is unchanged.
\<close>

theorem last_saved_written_without_save:
  "userId ex_state = []
   \<and> localStorage ex_state ''fisher_last_saved'' = None
   \<and> calls (save_preset_click ''2026-11-03T06:10:00.000Z'' ex_state) = calls ex_state
   \<and> localStorage (save_preset_click ''2026-11-03T06:10:00.000Z'' ex_state)
        ''fisher_last_saved'' = Some ''2026-11-03T06:10:00.000Z''
   \<and> calls (save_preset_click ''2026-11-03T06:10:00.000Z'' (onUserIdChange ''sam'' ex_state))
       = [GetMeta, PostPreset ''sam'' (form_payload ex_state)]
   \<and> presets (persistPreset_settle (Inl ex_error)
        (save_preset_click ''2026-11-03T06:10:00.000Z'' (onUserIdChange ''sam'' ex_state)))
       = presets ex_state
   \<and> error (persistPreset_settle (Inl ex_error)
        (save_preset_click ''2026-11-03T06:10:00.000Z'' (onUserIdChange ''sam'' ex_state)))
       = Some ''Network Error''
   \<and> localStorage (persistPreset_settle (Inl ex_error)
        (save_preset_click ''2026-11-03T06:10:00.000Z'' (onUserIdChange ''sam'' ex_state)))
        ''fisher_last_saved'' = Some ''2026-11-03T06:10:00.000Z''"
  by (simp add: save_preset_click_def handleSavePreset_def persistPreset_start_def
        persistPreset_settle_def onUserIdChange_def form_payload_def ex_state_def
        ex_error_def or_else_def Let_def)

text \<open>
  Claim C3, amended.  Every click on the form's save button writes its stamp to local
  storage and to the form, whatever the caller identifier and before the save call
  settles, and the settling of the save call, with success or failure, leaves the stamp
  of the click in place.  No other event of the page writes that entry.
\<close>

theorem last_saved_written_by_every_save_click:
  "localStorage (save_preset_click ts st) ''fisher_last_saved'' = Some ts
   \<and> lastSaved (save_preset_click ts st) = Some ts
   \<and> localStorage (persistPreset_settle r (save_preset_click ts st)) ''fisher_last_saved''
       = Some ts
   \<and> (\<not> is_save_click ev \<longrightarrow>
        localStorage (step ev st) ''fisher_last_saved'' = localStorage st ''fisher_last_saved'')"
proof -
  have click: "localStorage (save_preset_click ts st) ''fisher_last_saved'' = Some ts"
              "lastSaved (save_preset_click ts st) = Some ts"
    by (simp_all add: save_preset_click_def Let_def)
  have "\<not> is_save_click (PresetSaved r)"
    by (simp add: is_save_click_def)
  from step_last_saved_frame [OF this, of "save_preset_click ts st"] click(1)
  have settled: "localStorage (persistPreset_settle r (save_preset_click ts st))
       ''fisher_last_saved'' = Some ts"
    by simp
  from click settled step_last_saved_frame [of ev st] show ?thesis
    by blast
qed

theorem last_saved_written_by_every_save_click_witness:
  "localStorage (save_preset_click ''2026-11-03T06:10:00.000Z'' ex_state) ''fisher_last_saved''
     = Some ''2026-11-03T06:10:00.000Z''
   \<and> \<not> is_save_click (PresetSaved (Inr [ex_preset]))
   \<and> localStorage (step (PresetSaved (Inr [ex_preset])) ex_state) ''fisher_last_saved'' = None"
proof -
  note t = last_saved_written_by_every_save_click
     [of "''2026-11-03T06:10:00.000Z''" ex_state "Inr [ex_preset]" "PresetSaved (Inr [ex_preset])"]
  have a: "localStorage (save_preset_click ''2026-11-03T06:10:00.000Z'' ex_state)
       ''fisher_last_saved'' = Some ''2026-11-03T06:10:00.000Z''"
    using t by blast
  have n: "\<not> is_save_click (PresetSaved (Inr [ex_preset]))"
    by (simp add: is_save_click_def)
  with t have "localStorage (step (PresetSaved (Inr [ex_preset])) ex_state) ''fisher_last_saved''
      = localStorage ex_state ''fisher_last_saved''"
    by blast
  then have b: "localStorage (step (PresetSaved (Inr [ex_preset])) ex_state)
      ''fisher_last_saved'' = None"
    by (simp add: ex_state_def)
  from a n b show ?thesis by blast
qed

lemma form_payload_after_apply: "form_payload (apply_preset_click ts p st) = p"
  by (cases p)
     (simp add: form_payload_def apply_preset_click_def onApplyPreset_def runPlan_start_def
        Let_def)

lemma runPlan_settle_frame:
  "planning (runPlan_settle r st) = False"
  "regionId (runPlan_settle r st) = regionId st"
  "areaId (runPlan_settle r st) = areaId st"
  "calls (runPlan_settle r st) = calls st"
  "form_payload (runPlan_settle r st) = form_payload st"
  "defaults_of (runPlan_settle r st) = defaults_of st"
  by (cases r; simp add: runPlan_settle_def form_payload_def defaults_of_def)+

lemma form_effect_region_set: "regionId st \<noteq> [] \<Longrightarrow> form_effect st = st"
  by (cases "defaults_of st") (simp_all add: form_effect_def)

text \<open>
  Claim C6.  Clicking the chip of a saved preset sets the form's region id, area id,
  species list, start date and end date to the preset's values and at once submits a
  plan request that is the preset itself; the request the form would build is the
  preset again.  When the preset names a region and an area, so that the submit button
  is enabled, a later click on it, after the plan call has settled and the defaults
  effect has run, sends the same request once more.
\<close>

theorem apply_preset_round_trip:
  "regionId (apply_preset_click ts p st) = region_id p
   \<and> areaId (apply_preset_click ts p st) = area_id p
   \<and> f_species (apply_preset_click ts p st) = species p
   \<and> startDate (apply_preset_click ts p st) = start_date p
   \<and> endDate (apply_preset_click ts p st) = end_date p
   \<and> calls (apply_preset_click ts p st) = calls st @ [PostPlan p]
   \<and> form_payload (apply_preset_click ts p st) = p
   \<and> (region_id p \<noteq> [] \<and> area_id p \<noteq> [] \<longrightarrow>
        calls (submit_click (form_effect (runPlan_settle r (apply_preset_click ts p st))))
        = calls st @ [PostPlan p, PostPlan p])"
proof -
  let ?a = "apply_preset_click ts p st"
  have fields:
    "regionId ?a = region_id p" "areaId ?a = area_id p" "f_species ?a = species p"
    "startDate ?a = start_date p" "endDate ?a = end_date p"
    "calls ?a = calls st @ [PostPlan p]"
    by (simp_all add: apply_preset_click_def onApplyPreset_def runPlan_start_def Let_def)
  have again: "calls (submit_click (form_effect (runPlan_settle r ?a)))
        = calls st @ [PostPlan p, PostPlan p]"
    if "region_id p \<noteq> []" and "area_id p \<noteq> []"
  proof -
    let ?s = "runPlan_settle r ?a"
    have reg: "regionId ?s \<noteq> []" and ar: "areaId ?s \<noteq> []"
      using that fields by (simp_all add: runPlan_settle_frame)
    have "form_effect ?s = ?s"
      using reg by (rule form_effect_region_set)
    moreover have "submit_click ?s = onSubmit (form_payload ?s) ?s"
      using reg ar by (simp add: submit_click_def runPlan_settle_frame)
    moreover have "form_payload ?s = p"
      by (simp add: runPlan_settle_frame form_payload_after_apply)
    ultimately show ?thesis
      by (simp add: onSubmit_def runPlan_start_def runPlan_settle_frame fields)
  qed
  from fields form_payload_after_apply [of ts p st] again show ?thesis
    by blast
qed

theorem apply_preset_round_trip_witness:
  "region_id ex_preset \<noteq> [] \<and> area_id ex_preset \<noteq> []
   \<and> form_payload (apply_preset_click ''2026-11-03T06:10:00.000Z'' ex_preset
        (reset_click ex_state)) = ex_preset
   \<and> calls (apply_preset_click ''2026-11-03T06:10:00.000Z'' ex_preset (reset_click ex_state))
       = [GetMeta, PostPlan ex_preset]
   \<and> calls (submit_click (form_effect (runPlan_settle (Inr ex_plan)
        (apply_preset_click ''2026-11-03T06:10:00.000Z'' ex_preset (reset_click ex_state)))))
       = [GetMeta, PostPlan ex_preset, PostPlan ex_preset]"
proof -
  note t = apply_preset_round_trip
    [of "''2026-11-03T06:10:00.000Z''" ex_preset "reset_click ex_state" "Inr ex_plan"]
  have h: "region_id ex_preset \<noteq> []" "area_id ex_preset \<noteq> []"
    by (simp_all add: ex_preset_def)
  have c: "calls (reset_click ex_state) = [GetMeta]"
    by (simp add: reset_click_def ex_state_def)
  have a: "form_payload (apply_preset_click ''2026-11-03T06:10:00.000Z'' ex_preset
        (reset_click ex_state)) = ex_preset"
    using t by blast
  have b: "calls (apply_preset_click ''2026-11-03T06:10:00.000Z'' ex_preset (reset_click ex_state))
       = calls (reset_click ex_state) @ [PostPlan ex_preset]"
    using t by blast
  have d: "calls (submit_click (form_effect (runPlan_settle (Inr ex_plan)
        (apply_preset_click ''2026-11-03T06:10:00.000Z'' ex_preset (reset_click ex_state)))))
       = calls (reset_click ex_state) @ [PostPlan ex_preset, PostPlan ex_preset]"
    using t h by blast
  from h a b d show ?thesis by (simp add: c)
qed

lemma utc_day_plus_two: "utc_day (now + 2 * 24 * 60 * 60 * 1000) = utc_day now + 2"
  by (simp add: utc_day_def msPerDay_def)

lemma page_effect_no_meta: "meta st = None \<Longrightarrow> page_effect now st = st"
  by (simp add: page_effect_def)

lemma loaded_state:
  "meta (fetchMeta_settle (Inr m) (mount ls now0)) = Some m"
  "submitted (fetchMeta_settle (Inr m) (mount ls now0)) = False"
  "calls (fetchMeta_settle (Inr m) (mount ls now0)) = [GetMeta]"
  by (simp_all add: fetchMeta_settle_def mount_def fetchMeta_start_def init_def)

lemma day_20760: "day_text 20760 = ''2026-11-03''"
  by code_simp

lemma day_20762: "day_text 20762 = ''2026-11-05''"
  by code_simp

text \<open>
  Claim C10.  The page's effect does nothing before the metadata has arrived.  When the
  fetch succeeds and the response has defaults, the effect issues, with no user
  submission, one plan request: the default region and area, no species, the UTC date
  of now as start and the date two days later as end.  It stays the only plan request
  through every sequence of later events that contains no submission by the user.
  Without defaults the effect changes nothing and no plan request is issued.
\<close>

theorem auto_run_once_for_defaults:
  "page_effect now0 (mount ls now0) = mount ls now0
   \<and> (defaults m = Some d \<longrightarrow>
        calls (page_effect now (fetchMeta_settle (Inr m) (mount ls now0)))
          = [GetMeta,
             PostPlan \<lparr> region_id = d_region_id d, area_id = d_area_id d, species = [],
                        start_date = day_text (utc_day now),
                        end_date = day_text (utc_day now + 2) \<rparr>]
        \<and> ((\<forall>ev\<in>set evs. \<not> is_submission ev) \<longrightarrow>
             filter is_plan_request
               (calls (run evs (page_effect now (fetchMeta_settle (Inr m) (mount ls now0)))))
             = [PostPlan \<lparr> region_id = d_region_id d, area_id = d_area_id d, species = [],
                           start_date = day_text (utc_day now),
                           end_date = day_text (utc_day now + 2) \<rparr>]))
   \<and> (defaults m = None \<longrightarrow>
        page_effect now (fetchMeta_settle (Inr m) (mount ls now0))
          = fetchMeta_settle (Inr m) (mount ls now0)
        \<and> filter is_plan_request
            (calls (page_effect now (fetchMeta_settle (Inr m) (mount ls now0)))) = [])"
proof -
  let ?s = "fetchMeta_settle (Inr m) (mount ls now0)"
  let ?req = "\<lparr> region_id = d_region_id d, area_id = d_area_id d, species = [],
                 start_date = day_text (utc_day now),
                 end_date = day_text (utc_day now + 2) \<rparr>"
  have first: "page_effect now0 (mount ls now0) = mount ls now0"
    by (rule page_effect_no_meta) (simp add: mount_def fetchMeta_start_def init_def)
  have with_defaults:
    "calls (page_effect now ?s) = [GetMeta, PostPlan ?req]
     \<and> ((\<forall>ev\<in>set evs. \<not> is_submission ev) \<longrightarrow>
          filter is_plan_request (calls (run evs (page_effect now ?s))) = [PostPlan ?req])"
    if d: "defaults m = Some d"
  proof -
    have sub: "submitted (page_effect now ?s)"
      using d by (simp add: page_effect_def loaded_state)
    have "calls (page_effect now ?s)
       = [GetMeta,
          PostPlan \<lparr> region_id = d_region_id d, area_id = d_area_id d, species = [],
                     start_date = toISOString_slice10 now,
                     end_date = toISOString_slice10 (now + 2 * 24 * 60 * 60 * 1000) \<rparr>]"
      using d by (simp add: page_effect_def loaded_state runPlan_start_def)
    then have one: "calls (page_effect now ?s) = [GetMeta, PostPlan ?req]"
      by (simp only: toISOString_slice10_def utc_day_plus_two)
    have "filter is_plan_request (calls (run evs (page_effect now ?s))) = [PostPlan ?req]"
      if "\<forall>ev\<in>set evs. \<not> is_submission ev"
      using run_plan_requests [OF sub that] one by (simp add: is_plan_request_def)
    with one show ?thesis by blast
  qed
  have without: "page_effect now ?s = ?s
     \<and> filter is_plan_request (calls (page_effect now ?s)) = []"
    if "defaults m = None"
    using that by (simp add: page_effect_def loaded_state is_plan_request_def)
  from first with_defaults without show ?thesis by blast
qed

theorem auto_run_once_for_defaults_witness:
  "defaults ex_meta = Some \<lparr> d_region_id = ''western_cape'', d_area_id = ''false_bay'' \<rparr>
   \<and> calls (page_effect 1793664000000
        (fetchMeta_settle (Inr ex_meta) (mount Map.empty 1793663999000)))
       = [GetMeta,
          PostPlan \<lparr> region_id = ''western_cape'', area_id = ''false_bay'', species = [],
                     start_date = ''2026-11-03'', end_date = ''2026-11-05'' \<rparr>]
   \<and> map is_submission [FormEffect, PlanSettled (Inr ex_plan), PageEffect 1793664002000]
       = [False, False, False]
   \<and> filter is_plan_request
        (calls (run [FormEffect, PlanSettled (Inr ex_plan), PageEffect 1793664002000]
           (page_effect 1793664000000
              (fetchMeta_settle (Inr ex_meta) (mount Map.empty 1793663999000)))))
       = [PostPlan \<lparr> region_id = ''western_cape'', area_id = ''false_bay'', species = [],
                     start_date = ''2026-11-03'', end_date = ''2026-11-05'' \<rparr>]
   \<and> defaults ex_meta_plain = None
   \<and> calls (page_effect 1793664000000
        (fetchMeta_settle (Inr ex_meta_plain) (mount Map.empty 1793663999000)))
       = [GetMeta]"
proof -
  let ?d = "\<lparr> d_region_id = ''western_cape'', d_area_id = ''false_bay'' \<rparr>"
  let ?evs = "[FormEffect, PlanSettled (Inr ex_plan), PageEffect 1793664002000]"
  let ?req = "\<lparr> region_id = ''western_cape'', area_id = ''false_bay'', species = [],
                 start_date = ''2026-11-03'', end_date = ''2026-11-05'' \<rparr>"
  have d1: "defaults ex_meta = Some ?d"
    by (simp add: ex_meta_def)
  have d2: "defaults ex_meta_plain = None"
    by (simp add: ex_meta_plain_def)
  have e: "map is_submission ?evs = [False, False, False]"
    by (simp add: is_submission_def)
  then have e': "\<forall>ev\<in>set ?evs. \<not> is_submission ev"
    by simp
  have req: "\<lparr> region_id = d_region_id ?d, area_id = d_area_id ?d, species = [],
                start_date = day_text (utc_day 1793664000000),
                end_date = day_text (utc_day 1793664000000 + 2) \<rparr> = ?req"
    by (simp add: utc_day_def msPerDay_def day_20760 day_20762)
  note t = auto_run_once_for_defaults
    [of 1793663999000 Map.empty ex_meta ?d 1793664000000 ?evs]
  from d1 t have a: "calls (page_effect 1793664000000
        (fetchMeta_settle (Inr ex_meta) (mount Map.empty 1793663999000)))
       = [GetMeta, PostPlan ?req]"
    unfolding req by blast
  from d1 e' t have b: "filter is_plan_request
        (calls (run ?evs (page_effect 1793664000000
              (fetchMeta_settle (Inr ex_meta) (mount Map.empty 1793663999000)))))
       = [PostPlan ?req]"
    unfolding req by blast
  from d2 auto_run_once_for_defaults
    [of 1793663999000 Map.empty ex_meta_plain ?d 1793664000000 ?evs]
  have "page_effect 1793664000000
        (fetchMeta_settle (Inr ex_meta_plain) (mount Map.empty 1793663999000))
       = fetchMeta_settle (Inr ex_meta_plain) (mount Map.empty 1793663999000)"
    by blast
  then have c: "calls (page_effect 1793664000000
        (fetchMeta_settle (Inr ex_meta_plain) (mount Map.empty 1793663999000)))
       = [GetMeta]"
    by (simp add: loaded_state)
  from d1 a e b d2 c show ?thesis by blast
qed

end
